theory Spec2Isabelle
  imports Main
begin

section \<open>Python values, exceptions and effectful calls\<close>

text \<open>
  The repository is untyped Python. Its \<^verbatim>\<open>Perhaps\<close> class stores an arbitrary object
  in \<^verbatim>\<open>value\<close>, its methods call arbitrary callables, and one of its methods
  (\<^verbatim>\<open>collapse\<close>) hands the stored object back unwrapped. The model therefore has
  one type of Python objects, of which a \<^verbatim>\<open>Perhaps\<close> instance is one shape.

  An exception object is its class name and what \<^verbatim>\<open>str(e)\<close> returns.
\<close>

datatype pyexc = PyExc (exc_type: string) (exc_str: string)

text \<open>
  \<^verbatim>\<open>
  @attr.s(frozen=True, repr=False)
  class Perhaps:
      value = attr.ib()
      success = attr.ib()
  \<close>
  The constructor \<open>Perhaps v b\<close> is \<^verbatim>\<open>Perhaps(value=v, success=b)\<close>: the first
  argument is the attribute \<^verbatim>\<open>value\<close>, the second the attribute \<^verbatim>\<open>success\<close>. The
  source only ever stores the literals \<^verbatim>\<open>True\<close> and \<^verbatim>\<open>False\<close> in \<^verbatim>\<open>success\<close> and
  only tests its truth value, so the tag is a \<open>bool\<close>; \<^verbatim>\<open>value\<close> is any object. The
  README declares the two attributes in the other order (\<^verbatim>\<open>Perhaps(False, None)\<close>,
  \<^verbatim>\<open>Perhaps(True, v)\<close>), which names the same instances. The class is frozen, and
  \<^verbatim>\<open>attrs\<close> generates an \<^verbatim>\<open>__eq__\<close> that compares the two attributes, which is
  equality of the constructor's arguments.

  \<open>PObj t r\<close> is an object the model does not look into (a module, a function, a class,
  an open file, a non-zero float), with the name \<open>t\<close> of its type and its rendering \<open>r\<close>.
\<close>

datatype pyval =
    PNone
  | PBool bool
  | PInt int
  | PStr string
  | PExc pyexc
  | PObj string string
  | Perhaps pyval bool

fun type_name :: "pyval \<Rightarrow> string" where
  "type_name PNone = ''NoneType''"
| "type_name (PBool b) = ''bool''"
| "type_name (PInt i) = ''int''"
| "type_name (PStr s) = ''str''"
| "type_name (PExc e) = exc_type e"
| "type_name (PObj t r) = t"
| "type_name (Perhaps v b) = ''Perhaps''"

text \<open>The truth value Python's \<^verbatim>\<open>if\<close> and \<^verbatim>\<open>not\<close> give an object.\<close>

fun truthy :: "pyval \<Rightarrow> bool" where
  "truthy PNone = False"
| "truthy (PBool b) = b"
| "truthy (PInt i) = (i \<noteq> 0)"
| "truthy (PStr s) = (s \<noteq> [])"
| "truthy (PExc e) = True"
| "truthy (PObj t r) = True"
| "truthy (Perhaps v b) = True"

definition quote :: "string \<Rightarrow> string" where
  "quote s = CHR 0x27 # s @ [CHR 0x27]"

text \<open>Reading a name that is bound neither in the module nor in the builtins.\<close>

definition name_error :: "string \<Rightarrow> pyexc" where
  "name_error n = PyExc ''NameError'' (''name '' @ quote n @ '' is not defined'')"

text \<open>Reading an attribute the object's class does not have.\<close>

definition attribute_error :: "pyval \<Rightarrow> string \<Rightarrow> pyexc" where
  "attribute_error x a =
     PyExc ''AttributeError'' (quote (type_name x) @ '' object has no attribute '' @ quote a)"

text \<open>
  A Python call can return an object or raise, and it can have any side effect. A
  computation is a function from the state of the world before it to its outcome
  (\<open>Inl\<close> the exception raised, \<open>Inr\<close> the object returned) and the state after it. The
  state type is a parameter: the code under study never touches it, only the callables
  it is given do.
\<close>

type_synonym 's py = "'s \<Rightarrow> (pyexc + pyval) \<times> 's"

definition py_return :: "pyval \<Rightarrow> 's py" where
  "py_return v = (\<lambda>s. (Inr v, s))"

definition py_raise :: "pyexc \<Rightarrow> 's py" where
  "py_raise e = (\<lambda>s. (Inl e, s))"

text \<open>Evaluate \<open>m\<close>, then pass its value on; an exception in \<open>m\<close> ends the evaluation.\<close>

definition py_bind :: "'s py \<Rightarrow> (pyval \<Rightarrow> 's py) \<Rightarrow> 's py" where
  "py_bind m k = (\<lambda>s. case m s of (Inl e, s') \<Rightarrow> (Inl e, s') | (Inr v, s') \<Rightarrow> k v s')"

text \<open>
  \<^verbatim>\<open>try: m  except: h\<close> with a bare \<^verbatim>\<open>except\<close>: whatever \<open>m\<close> raises is caught and
  not bound to a name; the effects \<open>m\<close> had before it raised stay.
\<close>

definition py_try :: "'s py \<Rightarrow> 's py \<Rightarrow> 's py" where
  "py_try m h = (\<lambda>s. case m s of (Inl e, s') \<Rightarrow> h s' | (Inr v, s') \<Rightarrow> (Inr v, s'))"

section \<open>The notebook's \<^verbatim>\<open>Perhaps\<close>\<close>

text \<open>\<^verbatim>\<open>fail = Perhaps(None, False)\<close>\<close>

definition fail :: pyval where
  "fail = Perhaps PNone False"

text \<open>
  \<^verbatim>\<open>
  def succeed(v):
      return Perhaps(v, True)
  \<close>
\<close>

definition succeed :: "pyval \<Rightarrow> 's py" where
  "succeed v = py_return (Perhaps v True)"

text \<open>
  \<^verbatim>\<open>
  def inside(self, f):
      if self.success:
          return succeed(f(self.value))
      else:
          return fail
  \<close>
  The second equation is the method call \<^verbatim>\<open>x.inside(f)\<close> on an object that is not a
  \<^verbatim>\<open>Perhaps\<close>; likewise for the other methods.
\<close>

fun inside :: "pyval \<Rightarrow> (pyval \<Rightarrow> 's py) \<Rightarrow> 's py" where
  "inside (Perhaps v b) f = (if b then py_bind (f v) succeed else py_return fail)"
| "inside x f = py_raise (attribute_error x ''inside'')"

text \<open>
  \<^verbatim>\<open>
  def collapse(self):
      if self.success:
          return self.value
      else:
          return fail
  \<close>
\<close>

fun collapse :: "pyval \<Rightarrow> 's py" where
  "collapse (Perhaps v b) = (if b then py_return v else py_return fail)"
| "collapse x = py_raise (attribute_error x ''collapse'')"

text \<open>
  \<^verbatim>\<open>
  def and_then(self, f):
      return self.inside(f).collapse()
  \<close>
\<close>

fun and_then :: "pyval \<Rightarrow> (pyval \<Rightarrow> 's py) \<Rightarrow> 's py" where
  "and_then (Perhaps v b) f = py_bind (inside (Perhaps v b) f) collapse"
| "and_then x f = py_raise (attribute_error x ''and_then'')"

text \<open>
  \<^verbatim>\<open>
  @property
  def failure(self):
      return not success
  \<close>
  The body reads the name \<^verbatim>\<open>success\<close>, not the attribute \<^verbatim>\<open>self.success\<close>. It is not
  a local of the method, so Python looks it up in the module's namespace (and then in
  the builtins, which have no such name) when the property is evaluated. \<open>globals\<close> is
  that namespace.
\<close>

fun failure :: "(string \<rightharpoonup> pyval) \<Rightarrow> pyval \<Rightarrow> 's py" where
  "failure globals (Perhaps v b) =
     (case globals ''success'' of
        None \<Rightarrow> py_raise (name_error ''success'')
      | Some g \<Rightarrow> py_return (PBool (\<not> truthy g)))"
| "failure globals x = py_raise (attribute_error x ''failure'')"

text \<open>
  The names the notebook binds at top level, in the order of its cells, with the last
  object each is bound to. \<^verbatim>\<open>success\<close> is assigned only inside \<^verbatim>\<open>main_v3\<close>, where it is
  a local variable.
\<close>

definition notebook_globals :: "string \<rightharpoonup> pyval" where
  "notebook_globals = map_of
     [(''attr'', PObj ''module'' ''attr''),
      (''either'', PObj ''module'' ''either''),
      (''catch_locally'', PObj ''function'' ''catch_locally''),
      (''main_v1'', PObj ''function'' ''main_v1''),
      (''catch_nonlocally'', PObj ''function'' ''catch_nonlocally''),
      (''main_v2'', PObj ''function'' ''main_v2''),
      (''main_v3'', PObj ''function'' ''main_v3''),
      (''Perhaps'', PObj ''type'' ''Perhaps''),
      (''fail'', fail),
      (''succeed'', PObj ''function'' ''succeed''),
      (''div'', PObj ''function'' ''div''),
      (''times_10'', PObj ''function'' ''times_10''),
      (''a'', Perhaps (PObj ''float'' ''5.0'') True),
      (''b'', Perhaps (PObj ''float'' ''50.0'') True),
      (''even'', PObj ''function'' ''even''),
      (''fd'', PObj ''TextIOWrapper'' ''example_invalid.yaml''),
      (''os'', PObj ''module'' ''os''),
      (''yaml'', PObj ''module'' ''yaml''),
      (''Person'', PObj ''type'' ''Person''),
      (''attempt'', PObj ''function'' ''attempt''),
      (''ensure_path'', PObj ''function'' ''ensure_path''),
      (''read_content'', PObj ''function'' ''read_content''),
      (''parse_yaml'', PObj ''function'' ''parse_yaml''),
      (''load_person'', PObj ''function'' ''load_person''),
      (''process'', PObj ''function'' ''process'')]"

text \<open>
  \<^verbatim>\<open>
  def attempt(f, *args, **kwargs):
      try:
          return succeed(f(*args, **kwargs))
      except:
          return fail
  \<close>
  \<open>f\<close> takes the positional arguments and the keyword arguments.
\<close>

definition attempt ::
  "(pyval list \<Rightarrow> (string \<times> pyval) list \<Rightarrow> 's py) \<Rightarrow> pyval list \<Rightarrow> (string \<times> pyval) list \<Rightarrow> 's py"
where
  "attempt f args kwargs = py_try (py_bind (f args kwargs) succeed) (py_return fail)"

section \<open>The README's \<^verbatim>\<open>Perhaps\<close>\<close>

text \<open>
  The README gives the class a second time. \<^verbatim>\<open>inside\<close>, \<^verbatim>\<open>succeed\<close> and \<^verbatim>\<open>fail\<close> are
  as in the notebook; the other three members differ.
  \<^verbatim>\<open>
  def identity(v):
      return v
  \<close>
\<close>

definition identity :: "pyval \<Rightarrow> 's py" where
  "identity v = py_return v"

text \<open>
  \<^verbatim>\<open>
  def and_then(self, f):
      if self.success:
          return f(self.value)
      else:
          return fail
  \<close>
\<close>

fun and_then_readme :: "pyval \<Rightarrow> (pyval \<Rightarrow> 's py) \<Rightarrow> 's py" where
  "and_then_readme (Perhaps v b) f = (if b then f v else py_return fail)"
| "and_then_readme x f = py_raise (attribute_error x ''and_then'')"

text \<open>
  \<^verbatim>\<open>
  def collapse(self):
      return self.and_then(identity)
  \<close>
\<close>

fun collapse_readme :: "pyval \<Rightarrow> 's py" where
  "collapse_readme (Perhaps v b) = and_then_readme (Perhaps v b) identity"
| "collapse_readme x = py_raise (attribute_error x ''collapse'')"

text \<open>
  \<^verbatim>\<open>
  @property
  def failure(self):
      return not self.success
  \<close>
\<close>

fun failure_readme :: "pyval \<Rightarrow> 's py" where
  "failure_readme (Perhaps v b) = py_return (PBool (\<not> b))"
| "failure_readme x = py_raise (attribute_error x ''failure'')"

section \<open>Stubs used to exercise the methods\<close>

text \<open>A callable that counts its calls in the state and returns its argument.\<close>

definition counting_stub :: "pyval \<Rightarrow> nat py" where
  "counting_stub v = (\<lambda>n. (Inr v, Suc n))"

text \<open>A callable that returns \<open>v\<close> whatever it is given.\<close>

definition returning_stub :: "pyval \<Rightarrow> pyval list \<Rightarrow> (string \<times> pyval) list \<Rightarrow> 's py" where
  "returning_stub v args kwargs = py_return v"

text \<open>A callable that raises \<open>e\<close> whatever it is given.\<close>

definition raising_stub :: "pyexc \<Rightarrow> pyval list \<Rightarrow> (string \<times> pyval) list \<Rightarrow> 's py" where
  "raising_stub e args kwargs = py_raise e"

text \<open>
  What the specification asks of the result of \<^verbatim>\<open>attempt\<close> when the call raised \<open>e\<close>:
  a failure whose payload is the error object or its string form.
\<close>

definition carries_error :: "pyval \<Rightarrow> pyexc \<Rightarrow> bool" where
  "carries_error r e =
     (case r of
        Perhaps v b \<Rightarrow> \<not> b \<and> (v = PExc e \<or> v = PStr (exc_str e))
      | _ \<Rightarrow> False)"

section \<open>Laws of the computations\<close>

lemma py_bind_return_left: "py_bind (py_return v) k = k v"
  by (simp add: py_bind_def py_return_def)

lemma py_bind_return_right: "py_bind m py_return = m"
  by (rule ext) (simp add: py_bind_def py_return_def split: prod.splits sum.splits)

lemma py_bind_raise: "py_bind (py_raise e) k = py_raise e"
  by (simp add: py_bind_def py_raise_def)

lemma py_bind_assoc: "py_bind (py_bind m k) h = py_bind m (\<lambda>v. py_bind (k v) h)"
  by (rule ext) (simp add: py_bind_def split: prod.splits sum.splits)

lemma py_return_apply: "py_return v s = (Inr v, s)"
  by (simp add: py_return_def)

lemma py_raise_apply: "py_raise e s = (Inl e, s)"
  by (simp add: py_raise_def)

lemma inside_failure: "inside (Perhaps v False) f = py_return fail"
  by simp

lemma collapse_failure: "collapse (Perhaps v False) = py_return fail"
  by simp

lemma collapse_fail: "collapse fail = py_return fail"
  by (simp add: fail_def)

lemma and_then_failure: "and_then (Perhaps v False) f = py_return fail"
  by (simp add: py_bind_return_left collapse_fail)

lemma and_then_success: "and_then (Perhaps v True) f = f v"
  by (simp add: succeed_def py_bind_assoc py_bind_return_left py_bind_return_right)

lemma and_then_eq_readme: "and_then r f = and_then_readme r f"
proof (cases r)
  case (Perhaps v b)
  then show ?thesis
    by (cases b) (simp_all only: and_then_success and_then_failure and_then_readme.simps if_True if_False)
qed simp_all

lemma inside_success_identity: "inside (Perhaps v True) identity = py_return (Perhaps v True)"
  by (simp add: identity_def succeed_def py_bind_return_left)

lemma notebook_globals_success: "notebook_globals ''success'' = None"
  by (simp add: notebook_globals_def)

lemma failure_unbound:
  "globals ''success'' = None \<Longrightarrow> failure globals (Perhaps v b) = py_raise (name_error ''success'')"
  by simp

lemma failure_bound:
  "globals ''success'' = Some g \<Longrightarrow> failure globals (Perhaps v b) = py_return (PBool (\<not> truthy g))"
  by simp

lemma failure_readme_negates: "failure_readme (Perhaps v b) = py_return (PBool (\<not> b))"
  by simp

lemma counting_stub_counts: "counting_stub v n = (Inr v, Suc n)"
  by (simp add: counting_stub_def)

lemma inside_success_counts: "inside (Perhaps v True) counting_stub n = (Inr (Perhaps v True), Suc n)"
  by (simp add: counting_stub_def succeed_def py_bind_def py_return_def)

lemma fail_payload: "fail \<noteq> Perhaps (PInt 5) False"
  by (simp add: fail_def)

section \<open>Short-circuit on failure\<close>

text \<open>
  C1, as stated: for every failure value and every function \<open>f\<close>, \<^verbatim>\<open>inside\<close> and
  \<^verbatim>\<open>and_then\<close> applied to the failure equal that failure, and \<open>f\<close> is never invoked.
  A failure is an instance whose \<^verbatim>\<open>success\<close> is false; \<^verbatim>\<open>Perhaps(5, False)\<close> is one.
  On it \<^verbatim>\<open>inside\<close> returns the module's \<^verbatim>\<open>fail\<close>, which is \<^verbatim>\<open>Perhaps(None, False)\<close> and
  not the instance it was called on. The call-counting stub is not called: the counter
  is still 0.
\<close>

theorem inside_failure_payload_counterexample:
  "inside (Perhaps (PInt 5) False) counting_stub 0 = (Inr (Perhaps PNone False), 0)
   \<and> Perhaps PNone False \<noteq> Perhaps (PInt 5) False"
  by (simp add: fail_def py_return_def)

text \<open>
  C1, amended: for every failure (whatever its \<^verbatim>\<open>value\<close> attribute \<open>e\<close> holds) and every
  callable \<open>f\<close>, \<^verbatim>\<open>inside\<close> and \<^verbatim>\<open>and_then\<close> return the shared \<^verbatim>\<open>fail\<close>, which is
  that failure itself when the failure is \<^verbatim>\<open>fail\<close>. Nothing is raised and the state \<open>s\<close>
  comes back as it was, for every \<open>f\<close> and every type of state: \<open>f\<close> is not invoked and
  the result does not depend on it.
\<close>

theorem failure_short_circuit:
  "inside (Perhaps e False) f s = (Inr fail, s)
   \<and> and_then (Perhaps e False) f s = (Inr fail, s)
   \<and> inside fail f s = (Inr fail, s)
   \<and> and_then fail f s = (Inr fail, s)"
  by (simp only: fail_def inside_failure and_then_failure py_return_apply simp_thms)

section \<open>Monad laws of \<^verbatim>\<open>and_then\<close>\<close>

text \<open>
  C2, as stated: \<^verbatim>\<open>r.and_then(succeed) == r\<close> for every \<^verbatim>\<open>Perhaps\<close> \<open>r\<close>, success or
  failure, whatever its \<^verbatim>\<open>value\<close> holds. For the failure \<^verbatim>\<open>Perhaps(5, False)\<close> the result
  is \<^verbatim>\<open>fail\<close>, whose \<^verbatim>\<open>value\<close> is \<^verbatim>\<open>None\<close>.
\<close>

theorem and_then_succeed_failure_payload_counterexample:
  "and_then (Perhaps (PInt 5) False) succeed () = (Inr fail, ())
   \<and> fail \<noteq> Perhaps (PInt 5) False"
  by (simp only: and_then_failure py_return_apply fail_payload simp_thms)

text \<open>
  C2, amended: \<^verbatim>\<open>r.and_then(succeed) == r\<close> for every successful \<open>r\<close> and for
  \<open>r = fail\<close>; for any other failure the result is \<^verbatim>\<open>fail\<close>.
\<close>

theorem and_then_succeed_right_identity:
  "and_then (Perhaps v True) succeed = py_return (Perhaps v True)
   \<and> and_then fail succeed = py_return fail
   \<and> and_then (Perhaps e False) succeed = py_return fail"
  by (simp only: and_then_success and_then_failure fail_def succeed_def simp_thms)

text \<open>
  C3: binding \<open>r\<close> with \<open>f\<close> and the result with \<open>g\<close> is binding \<open>r\<close> with the function
  that takes \<open>v\<close> to \<^verbatim>\<open>f(v).and_then(g)\<close>. It holds for the notebook's \<^verbatim>\<open>and_then\<close>
  (\<^verbatim>\<open>inside\<close> followed by \<^verbatim>\<open>collapse\<close>) and for the README's (the direct branch), for
  every object \<open>r\<close> and all callables \<open>f\<close> and \<open>g\<close>, exceptions and effects included.
\<close>

theorem and_then_assoc:
  "py_bind (and_then r f) (\<lambda>q. and_then q g)
     = and_then r (\<lambda>v. py_bind (f v) (\<lambda>q. and_then q g))
   \<and> py_bind (and_then_readme r f) (\<lambda>q. and_then_readme q g)
     = and_then_readme r (\<lambda>v. py_bind (f v) (\<lambda>q. and_then_readme q g))"
proof (cases r)
  case (Perhaps v b)
  show ?thesis
  proof (cases b)
    case True
    with Perhaps show ?thesis
      by (simp only: and_then_eq_readme and_then_readme.simps if_True simp_thms)
  next
    case False
    with Perhaps show ?thesis
      by (simp only: and_then_eq_readme and_then_readme.simps if_False py_bind_return_left
          fail_def simp_thms)
  qed
qed (simp_all add: py_bind_raise)

section \<open>\<^verbatim>\<open>collapse\<close>\<close>

text \<open>
  C4, as stated: \<^verbatim>\<open>succeed(succeed(x)).collapse()\<close> equals \<^verbatim>\<open>succeed(x)\<close>,
  \<^verbatim>\<open>succeed(fail).collapse()\<close> equals \<^verbatim>\<open>fail\<close>, and \<^verbatim>\<open>collapse\<close> of a failure equals
  that failure. The last part fails on the failure \<^verbatim>\<open>Perhaps(5, False)\<close>: the result is
  \<^verbatim>\<open>fail\<close>, whose \<^verbatim>\<open>value\<close> is \<^verbatim>\<open>None\<close>.
\<close>

theorem collapse_failure_payload_counterexample:
  "collapse (Perhaps (PInt 5) False) () = (Inr fail, ())
   \<and> fail \<noteq> Perhaps (PInt 5) False"
  by (simp only: collapse_failure py_return_apply fail_payload simp_thms)

text \<open>
  C4, amended: \<^verbatim>\<open>succeed(succeed(x)).collapse()\<close> equals \<^verbatim>\<open>succeed(x)\<close>;
  \<^verbatim>\<open>succeed(fail).collapse()\<close> equals \<^verbatim>\<open>fail\<close>; \<^verbatim>\<open>collapse\<close> of a failure is \<^verbatim>\<open>fail\<close>,
  which is that failure when the failure is \<^verbatim>\<open>fail\<close>.
\<close>

theorem collapse_one_level:
  "py_bind (py_bind (succeed x) succeed) collapse = succeed x
   \<and> py_bind (succeed fail) collapse = py_return fail
   \<and> collapse (Perhaps e False) = py_return fail
   \<and> collapse fail = py_return fail"
  by (simp add: succeed_def py_bind_return_left collapse_fail)

text \<open>
  C6: the notebook's \<^verbatim>\<open>collapse\<close> (the direct branch) and the README's
  (\<^verbatim>\<open>self.and_then(identity)\<close> over the README's \<^verbatim>\<open>and_then\<close>) are the same computation
  on every object: the same result, and the same \<^verbatim>\<open>AttributeError\<close> on an object that is
  not a \<^verbatim>\<open>Perhaps\<close>.
\<close>

theorem collapse_definitions_agree: "collapse p = collapse_readme p"
  by (cases p) (simp_all add: identity_def)

text \<open>
  C9: on a success, \<^verbatim>\<open>collapse\<close> returns the stored object itself, in both definitions,
  whatever that object is. For \<^verbatim>\<open>succeed(3)\<close> the result is the integer 3, which is not a
  \<^verbatim>\<open>Perhaps\<close>: the next method call on it raises \<^verbatim>\<open>AttributeError\<close>.
\<close>

theorem collapse_returns_payload:
  "collapse (Perhaps v True) = py_return v
   \<and> collapse_readme (Perhaps v True) = py_return v
   \<and> py_bind (succeed (PInt 3)) collapse = py_return (PInt 3)
   \<and> py_bind (py_bind (succeed (PInt 3)) collapse) collapse
       = py_raise (attribute_error (PInt 3) ''collapse'')"
  by (simp add: succeed_def identity_def py_bind_return_left)

section \<open>Functor identity and the failure sentinel\<close>

text \<open>
  C7, as stated: \<^verbatim>\<open>r.inside(identity) == r\<close> for every \<^verbatim>\<open>Perhaps\<close> \<open>r\<close>, success or
  failure, whatever its \<^verbatim>\<open>value\<close> holds. For the failure \<^verbatim>\<open>Perhaps(5, False)\<close> the result
  is \<^verbatim>\<open>fail\<close>, whose \<^verbatim>\<open>value\<close> is \<^verbatim>\<open>None\<close>.
\<close>

theorem inside_identity_failure_payload_counterexample:
  "inside (Perhaps (PInt 5) False) identity () = (Inr fail, ())
   \<and> fail \<noteq> Perhaps (PInt 5) False"
  by (simp only: inside_failure py_return_apply fail_payload simp_thms)

text \<open>
  C7, amended: \<^verbatim>\<open>r.inside(identity) == r\<close> for every successful \<open>r\<close> and for
  \<open>r = fail\<close>; for any other failure the result is \<^verbatim>\<open>fail\<close>.
\<close>

theorem inside_identity:
  "inside (Perhaps v True) identity = py_return (Perhaps v True)
   \<and> inside fail identity = py_return fail
   \<and> inside (Perhaps e False) identity = py_return fail"
  by (simp only: inside_success_identity inside_failure fail_def simp_thms)

text \<open>
  C8: on an instance whose \<^verbatim>\<open>success\<close> is \<^verbatim>\<open>False\<close>, whatever its \<^verbatim>\<open>value\<close> \<open>e\<close> holds,
  \<^verbatim>\<open>inside\<close>, \<^verbatim>\<open>and_then\<close> and \<^verbatim>\<open>collapse\<close> all return \<^verbatim>\<open>fail\<close>, which is
  \<^verbatim>\<open>Perhaps(None, False)\<close>: the stored \<open>e\<close> is dropped.
\<close>

theorem failure_results_are_sentinel:
  "inside (Perhaps e False) f = py_return fail
   \<and> and_then (Perhaps e False) f = py_return fail
   \<and> collapse (Perhaps e False) = py_return fail
   \<and> fail = Perhaps PNone False"
  by (simp only: inside_failure and_then_failure collapse_failure fail_def simp_thms)

section \<open>\<^verbatim>\<open>attempt\<close>\<close>

text \<open>
  C5, as stated: \<^verbatim>\<open>attempt\<close> returns a success holding \<open>v\<close> when the call returns \<open>v\<close>, and
  when the call raises it returns a failure carrying the error, or its string form, as
  payload. A callable that raises \<^verbatim>\<open>ZeroDivisionError\<close> gives \<^verbatim>\<open>fail\<close>, which carries
  \<^verbatim>\<open>None\<close>.
\<close>

theorem attempt_discards_error_counterexample:
  "attempt (raising_stub (PyExc ''ZeroDivisionError'' ''division by zero'')) [PInt 10, PInt 0] [] ()
     = (Inr fail, ())
   \<and> \<not> carries_error fail (PyExc ''ZeroDivisionError'' ''division by zero'')"
  by (simp add: attempt_def raising_stub_def py_try_def py_bind_def py_raise_def py_return_def
      carries_error_def fail_def)

text \<open>
  C5, amended: \<^verbatim>\<open>attempt\<close> returns a success holding \<open>v\<close> when the call returns \<open>v\<close>, and
  when the call raises it catches the error and returns \<^verbatim>\<open>fail\<close>, which carries no
  payload. In both cases the effects of the call stay.
\<close>

theorem attempt_outcomes:
  "(f args kwargs s = (Inr v, s') \<longrightarrow> attempt f args kwargs s = (Inr (Perhaps v True), s'))
   \<and> (f args kwargs s = (Inl e, s') \<longrightarrow> attempt f args kwargs s = (Inr fail, s'))"
  by (simp add: attempt_def py_try_def py_bind_def succeed_def py_return_def)

theorem attempt_outcomes_witness:
  "returning_stub (PInt 5) [PInt 10, PInt 2] [] () = (Inr (PInt 5), ())
   \<and> attempt (returning_stub (PInt 5)) [PInt 10, PInt 2] [] () = (Inr (Perhaps (PInt 5) True), ())
   \<and> raising_stub (PyExc ''KeyError'' ''name'') [PNone] [] () = (Inl (PyExc ''KeyError'' ''name''), ())
   \<and> attempt (raising_stub (PyExc ''KeyError'' ''name'')) [PNone] [] () = (Inr fail, ())"
proof -
  have r: "returning_stub (PInt 5) [PInt 10, PInt 2] [] () = (Inr (PInt 5), ())"
    by (simp add: returning_stub_def py_return_def)
  have x: "raising_stub (PyExc ''KeyError'' ''name'') [PNone] [] () = (Inl (PyExc ''KeyError'' ''name''), ())"
    by (simp add: raising_stub_def py_raise_def)
  from r x
    attempt_outcomes [of "returning_stub (PInt 5)" "[PInt 10, PInt 2]" "[]" "()" "PInt 5" "()"]
    attempt_outcomes [of "raising_stub (PyExc ''KeyError'' ''name'')" "[PNone]" "[]" "()" _ _
      "PyExc ''KeyError'' ''name''"]
  show ?thesis by simp
qed

section \<open>The \<^verbatim>\<open>failure\<close> property\<close>

text \<open>
  C10: \<^verbatim>\<open>p.failure\<close> is the negation of \<^verbatim>\<open>p.success\<close> and never raises. The README's
  property does that. The notebook's reads the unbound name \<^verbatim>\<open>success\<close> and raises
  \<^verbatim>\<open>NameError\<close> on every instance; here on \<^verbatim>\<open>succeed(3)\<close>.
\<close>

theorem failure_notebook_raises_name_error:
  "failure notebook_globals (Perhaps (PInt 3) True) () = (Inl (name_error ''success''), ())
   \<and> failure_readme (Perhaps (PInt 3) True) () = (Inr (PBool False), ())"
  by (simp only: failure_unbound [of notebook_globals, OF notebook_globals_success] failure_readme_negates
      py_raise_apply py_return_apply simp_thms)

end
